theory Spec2Isabelle
  imports Complex_Main "HOL-Library.Word"
begin

section \<open>C doubles\<close>

text \<open>
  A C \<open>double\<close> is a finite number, one of the two infinities, or not-a-number.
  Comparisons follow IEEE 754: every ordered comparison and \<open>==\<close> with a NaN operand is
  false. The sign of zero is not carried: the two zeros compare equal, and a nonzero
  finite value divided by zero is an infinity, taking zero as positive.
\<close>

datatype double = Finite real | PosInf | NegInf | NaN

text \<open>The operator \<open><\<close>.\<close>

fun d_lt :: "double \<Rightarrow> double \<Rightarrow> bool" where
  "d_lt (Finite a) (Finite b) = (a < b)"
| "d_lt (Finite a) PosInf = True"
| "d_lt NegInf (Finite b) = True"
| "d_lt NegInf PosInf = True"
| "d_lt _ _ = False"

text \<open>The operator \<open>==\<close>.\<close>

fun d_eq :: "double \<Rightarrow> double \<Rightarrow> bool" where
  "d_eq (Finite a) (Finite b) = (a = b)"
| "d_eq PosInf PosInf = True"
| "d_eq NegInf NegInf = True"
| "d_eq _ _ = False"

definition d_gt :: "double \<Rightarrow> double \<Rightarrow> bool" where
  "d_gt x y = d_lt y x"

definition d_le :: "double \<Rightarrow> double \<Rightarrow> bool" where
  "d_le x y = (d_lt x y \<or> d_eq x y)"

text \<open>Unary minus and \<open>fabs\<close>, which are exact.\<close>

fun d_neg :: "double \<Rightarrow> double" where
  "d_neg (Finite a) = Finite (- a)"
| "d_neg PosInf = NegInf"
| "d_neg NegInf = PosInf"
| "d_neg NaN = NaN"

fun fabs :: "double \<Rightarrow> double" where
  "fabs (Finite a) = Finite \<bar>a\<bar>"
| "fabs PosInf = PosInf"
| "fabs NegInf = PosInf"
| "fabs NaN = NaN"

subsection \<open>Rounding to binary64\<close>

text \<open>
  The finite values of the format: an integer of magnitude below \<open>2^53\<close> times a power of
  two with exponent from \<open>-1074\<close> to \<open>971\<close>. The smallest positive one is \<open>2^-1074\<close> and
  the largest is \<open>2^1024 - 2^971\<close>.
\<close>

definition binary64 :: "real set" where
  "binary64 = (\<lambda>(m, e). of_int m * 2 powi e) ` ({- (2 ^ 53) <..< 2 ^ 53} \<times> {- 1074 .. 971})"

text \<open>The values of the format that are nearest to a real number: one, or two at equal
  distance on either side.\<close>

definition nearest :: "real \<Rightarrow> real set" where
  "nearest r = {v \<in> binary64. \<forall>u \<in> binary64. \<bar>r - v\<bar> \<le> \<bar>r - u\<bar>}"

text \<open>A value whose significand, written with the exponent the format gives it, is
  even.\<close>

definition even_significand :: "real \<Rightarrow> bool" where
  "even_significand v =
     (\<exists>m e. v = of_int m * 2 powi e \<and> even m \<and> \<bar>m\<bar> < 2 ^ 53 \<and> - 1074 \<le> e \<and> e \<le> 971 \<and>
            (2 ^ 52 \<le> \<bar>m\<bar> \<or> e = - 1074))"

text \<open>An infinity of the sign of a nonzero real.\<close>

definition inf_of_sign :: "real \<Rightarrow> double" where
  "inf_of_sign s = (if 0 < s then PosInf else NegInf)"

text \<open>
  Rounding to nearest, ties to even, the default mode: a real of magnitude at least
  \<open>2^1024 - 2^970\<close> overflows to an infinity, and any other goes to the nearest value
  of the format, the one with the even significand when two are equally near.
\<close>

definition rnd :: "real \<Rightarrow> double" where
  "rnd r =
     (if 2 ^ 1024 - 2 ^ 970 \<le> \<bar>r\<bar> then inf_of_sign r
      else if even_significand (Min (nearest r)) then Finite (Min (nearest r))
      else Finite (Max (nearest r)))"


subsection \<open>Arithmetic\<close>

text \<open>The operators \<open>+\<close>, \<open>-\<close>, \<open>*\<close> and \<open>/\<close>: the exact result, rounded.\<close>

fun d_add :: "double \<Rightarrow> double \<Rightarrow> double" where
  "d_add (Finite a) (Finite b) = rnd (a + b)"
| "d_add NaN _ = NaN"
| "d_add _ NaN = NaN"
| "d_add PosInf NegInf = NaN"
| "d_add NegInf PosInf = NaN"
| "d_add PosInf _ = PosInf"
| "d_add NegInf _ = NegInf"
| "d_add (Finite a) y = y"

definition d_sub :: "double \<Rightarrow> double \<Rightarrow> double" where
  "d_sub x y = d_add x (d_neg y)"

fun d_mul :: "double \<Rightarrow> double \<Rightarrow> double" where
  "d_mul (Finite a) (Finite b) = rnd (a * b)"
| "d_mul NaN _ = NaN"
| "d_mul _ NaN = NaN"
| "d_mul PosInf (Finite b) = (if b = 0 then NaN else inf_of_sign b)"
| "d_mul NegInf (Finite b) = (if b = 0 then NaN else inf_of_sign (- b))"
| "d_mul (Finite a) PosInf = (if a = 0 then NaN else inf_of_sign a)"
| "d_mul (Finite a) NegInf = (if a = 0 then NaN else inf_of_sign (- a))"
| "d_mul PosInf PosInf = PosInf"
| "d_mul PosInf NegInf = NegInf"
| "d_mul NegInf PosInf = NegInf"
| "d_mul NegInf NegInf = PosInf"

fun d_div :: "double \<Rightarrow> double \<Rightarrow> double" where
  "d_div (Finite a) (Finite b) =
     (if b = 0 then (if a = 0 then NaN else inf_of_sign a) else rnd (a / b))"
| "d_div NaN _ = NaN"
| "d_div _ NaN = NaN"
| "d_div (Finite a) PosInf = Finite 0"
| "d_div (Finite a) NegInf = Finite 0"
| "d_div PosInf (Finite b) = (if 0 \<le> b then PosInf else NegInf)"
| "d_div NegInf (Finite b) = (if 0 \<le> b then NegInf else PosInf)"
| "d_div PosInf PosInf = NaN"
| "d_div PosInf NegInf = NaN"
| "d_div NegInf PosInf = NaN"
| "d_div NegInf NegInf = NaN"

text \<open>The library functions \<open>sqrt\<close>, \<open>exp\<close> and \<open>log\<close> of \<open>math.h\<close>. IEEE 754 asks
  \<open>sqrt\<close> to be correctly rounded; \<open>exp\<close> and \<open>log\<close> are taken to be so too.\<close>

fun d_sqrt :: "double \<Rightarrow> double" where
  "d_sqrt (Finite a) = (if a < 0 then NaN else rnd (sqrt a))"
| "d_sqrt PosInf = PosInf"
| "d_sqrt NegInf = NaN"
| "d_sqrt NaN = NaN"

fun d_exp :: "double \<Rightarrow> double" where
  "d_exp (Finite a) = rnd (exp a)"
| "d_exp PosInf = PosInf"
| "d_exp NegInf = Finite 0"
| "d_exp NaN = NaN"

fun d_log :: "double \<Rightarrow> double" where
  "d_log (Finite a) = (if a < 0 then NaN else if a = 0 then NegInf else rnd (ln a))"
| "d_log PosInf = PosInf"
| "d_log NegInf = NaN"
| "d_log NaN = NaN"

section \<open>Constants of the math header\<close>

text \<open>The macros \<open>RCPR_EULER_E\<close> (the reciprocal of Euler's number) and \<open>ONE_PI\<close>: the
  decimal literals of the header, which the compiler rounds to \<open>double\<close>.\<close>

definition RCPR_EULER_E :: double where
  "RCPR_EULER_E = rnd (367879441171442321595523770161460867 / 10 ^ 36)"

definition ONE_PI :: double where
  "ONE_PI = rnd (3141592653589793238462643383279502880 / 10 ^ 36)"

section \<open>The Lambert W function\<close>

text \<open>
  \<open>LambertW_Double\<close> of \<open>__math_function_lambertw.c\<close>. The Halley correction
  \<open>dx\<close> is written twice in the source, before the loop and in its body, with the same
  expression; \<open>LambertW_dx\<close> is that expression. \<open>EPS\<close> is the literal \<open>1.0e-8\<close>.
\<close>

definition EPS :: double where
  "EPS = rnd (1 / 10 ^ 8)"

definition LambertW_dx :: "double \<Rightarrow> double \<Rightarrow> double" where
  "LambertW_dx x x0 =
     (let exp_x0 = d_exp x0 in
      d_div (d_sub (d_mul x0 exp_x0) x)
        (d_sub (d_mul exp_x0 (d_add x0 (Finite 1)))
           (d_div (d_mul (d_add x0 (Finite 2)) (d_sub (d_mul x0 exp_x0) x))
              (d_add (d_mul (Finite 2) x0) (Finite 2)))))"

text \<open>The loop \<open>while (fabs(dx) > EPS)\<close>. Nothing bounds its iterations, so a run that
  never leaves it is the value \<open>None\<close>.\<close>

partial_function (option) LambertW_while :: "double \<Rightarrow> double \<Rightarrow> double \<Rightarrow> double option" where
  "LambertW_while x x0 dx =
     (if d_gt (fabs dx) EPS
      then (let dx' = LambertW_dx x x0 in LambertW_while x (d_sub x0 dx') dx')
      else Some x0)"

text \<open>The first correction and the loop, from the starting guess \<open>x0\<close>.\<close>

definition LambertW_iterate :: "double \<Rightarrow> double \<Rightarrow> double option" where
  "LambertW_iterate x x0 =
     (let dx = LambertW_dx x x0 in LambertW_while x (d_sub x0 dx) dx)"

definition LambertW_Double :: "double \<Rightarrow> double option" where
  "LambertW_Double x =
     (if d_lt x PosInf \<and> d_gt x (d_neg RCPR_EULER_E) then
        (if d_gt x (Finite 2) then LambertW_iterate x (d_log (d_div x (d_log x)))
         else if d_gt x (d_neg RCPR_EULER_E) then LambertW_iterate x x
         else if d_eq x (d_neg RCPR_EULER_E) then Some (Finite (- 1))
         else Some NaN)
      else if d_eq x (d_neg RCPR_EULER_E) then Some (Finite (- 1))
      else if d_lt x (d_neg RCPR_EULER_E) then Some NaN
      else Some PosInf)"

section \<open>The inverse of the resolution relation\<close>

text \<open>\<open>Resolution_Inverse_Double\<close> of \<open>kaiser_bessel.c\<close>.\<close>

definition Resolution_Inverse_Double :: "double \<Rightarrow> double option" where
  "Resolution_Inverse_Double x =
     (if d_le x (Finite 1) then Some NaN
      else if d_lt x PosInf then
        (let P1 = d_div x (d_sub (Finite 1) x);
             P2 = d_mul P1 (d_exp P1)
         in map_option (\<lambda>w. d_sub w P1) (LambertW_Double P2))
      else Some (Finite 0))"

section \<open>The Kaiser-Bessel window\<close>

text \<open>
  Modelled from the spec: \<open>rssringoccs_Bessel_I0_Double\<close>, which the window calls, is
  declared in a header but its definition is not among the sources. The specification asks for the
  modified Bessel function \<open>I0\<close>, accurate over the whole real line; it is given here by
  its power series, the sum over \<open>k\<close> of \<open>((y/2)^k / k!)^2\<close>, rounded to \<open>double\<close>, which
  overflows to \<open>+\<infinity>\<close> where the series exceeds the format.
\<close>

definition Bessel_I0 :: "real \<Rightarrow> real" where
  "Bessel_I0 y = (\<Sum>k. ((y / 2) ^ k / fact k)\<^sup>2)"

fun rssringoccs_Bessel_I0_Double :: "double \<Rightarrow> double" where
  "rssringoccs_Bessel_I0_Double (Finite y) = rnd (Bessel_I0 y)"
| "rssringoccs_Bessel_I0_Double PosInf = PosInf"
| "rssringoccs_Bessel_I0_Double NegInf = PosInf"
| "rssringoccs_Bessel_I0_Double NaN = NaN"

text \<open>
  \<open>rssringoccs_Kaiser_Bessel_Double\<close> of \<open>kaiser_bessel.c\<close>, the instance of the macro
  \<open>_define_kaiser_bessel\<close> at \<open>double\<close>; \<open>rssringoccs_Abs_Double\<close> and
  \<open>rssringoccs_Sqrt_Double\<close> are the header's aliases of \<open>fabs\<close> and \<open>sqrt\<close>.
\<close>

definition rssringoccs_Kaiser_Bessel_Double :: "double \<Rightarrow> double \<Rightarrow> double \<Rightarrow> double" where
  "rssringoccs_Kaiser_Bessel_Double x W alpha =
     (let abs_x = fabs x in
      if d_eq alpha (Finite 0) then
        (if d_lt abs_x (d_mul (Finite (1 / 2)) W) then Finite 1 else Finite 0)
      else if d_lt abs_x (d_mul (Finite (1 / 2)) W) then
        (let arg = d_div (d_mul (Finite 2) abs_x) W;
             arg = d_sqrt (d_sub (Finite 1) (d_mul arg arg));
             alpha = d_mul alpha ONE_PI
         in d_div (rssringoccs_Bessel_I0_Double (d_mul alpha arg))
                  (rssringoccs_Bessel_I0_Double alpha))
      else Finite 0)"

section \<open>Python objects and NumPy arrays\<close>

text \<open>
  The type numbers of NumPy arrays that the wrappers compare with, and the exceptions
  they raise. A wrapper that returns \<open>NULL\<close> after \<open>PyErr_Format\<close> is the value
  \<open>Inl\<close> of the exception. \<open>Segfault\<close> stands for a read through a null pointer,
  where the C program has no defined behaviour and the model stops.
\<close>

datatype npy_type =
    NPY_BOOL | NPY_BYTE | NPY_UBYTE | NPY_SHORT | NPY_USHORT | NPY_INT | NPY_UINT
  | NPY_LONG | NPY_ULONG | NPY_LONGLONG | NPY_ULONGLONG
  | NPY_FLOAT | NPY_DOUBLE | NPY_LONGDOUBLE
  | NPY_CFLOAT | NPY_CDOUBLE | NPY_CLONGDOUBLE | NPY_OBJECT

datatype py_error = PyExc_TypeError | PyExc_IndexError | PyExc_MemoryError | Segfault

text \<open>An array object: its type number, its shape and the address of its data.\<close>

record PyArrayObject =
  typenum :: npy_type
  dims :: "int list"
  data :: nat

definition PyArray_NDIM :: "PyArrayObject \<Rightarrow> nat" where
  "PyArray_NDIM x = length (dims x)"

text \<open>\<open>PyArray_DIMS(x)[0]\<close>: the shape pointer of an array of no dimension is null.\<close>

definition PyArray_DIM0 :: "PyArrayObject \<Rightarrow> int option" where
  "PyArray_DIM0 x = (case dims x of [] \<Rightarrow> None | d # _ \<Rightarrow> Some d)"

datatype PyObject =
    PyLong int
  | PyBool bool
  | PyFloat double
  | PyArray PyArrayObject
  | PyOther

text \<open>\<open>PyLong_Check\<close> accepts \<open>int\<close> and its subclass \<open>bool\<close>.\<close>

fun PyLong_Check :: "PyObject \<Rightarrow> bool" where
  "PyLong_Check (PyLong n) = True"
| "PyLong_Check (PyBool b) = True"
| "PyLong_Check _ = False"

fun PyFloat_Check :: "PyObject \<Rightarrow> bool" where
  "PyFloat_Check (PyFloat d) = True"
| "PyFloat_Check _ = False"

text \<open>
  A C \<open>long\<close> has 64 bits. \<open>PyLong_AsLong\<close> fails with an overflow on a Python integer
  outside its range, and \<open>PyArg_ParseTuple\<close> then returns false; the parse also fails
  unless the argument tuple has exactly the one item the format asks for.
\<close>

type_synonym long = "64 word"

definition PyLong_AsLong :: "int \<Rightarrow> long option" where
  "PyLong_AsLong n = (if - (2 ^ 63) \<le> n \<and> n < 2 ^ 63 then Some (word_of_int n) else None)"

definition PyLong_FromLong :: "long \<Rightarrow> PyObject" where
  "PyLong_FromLong v = PyLong (sint v)"

definition PyFloat_FromDouble :: "double \<Rightarrow> PyObject" where
  "PyFloat_FromDouble v = PyFloat v"

text \<open>\<open>PyArg_ParseTuple(args, "l", &v)\<close>.\<close>

fun PyArg_ParseTuple_l :: "PyObject list \<Rightarrow> long option" where
  "PyArg_ParseTuple_l [PyLong n] = PyLong_AsLong n"
| "PyArg_ParseTuple_l [PyBool b] = Some (if b then 1 else 0)"
| "PyArg_ParseTuple_l _ = None"

text \<open>\<open>PyArg_ParseTuple(args, "d", &v)\<close>. An integer is rounded to \<open>double\<close>, and one too
  large for the format fails with an overflow.\<close>

definition PyLong_AsDouble :: "int \<Rightarrow> double option" where
  "PyLong_AsDouble n = (case rnd (of_int n) of Finite v \<Rightarrow> Some (Finite v) | _ \<Rightarrow> None)"

fun PyArg_ParseTuple_d :: "PyObject list \<Rightarrow> double option" where
  "PyArg_ParseTuple_d [PyFloat d] = Some d"
| "PyArg_ParseTuple_d [PyLong n] = PyLong_AsDouble n"
| "PyArg_ParseTuple_d [PyBool b] = Some (Finite (if b then 1 else 0))"
| "PyArg_ParseTuple_d _ = None"

text \<open>\<open>PyArg_ParseTuple(args, "O!", &PyArray_Type, &x)\<close>.\<close>

fun PyArg_ParseTuple_array :: "PyObject list \<Rightarrow> PyArrayObject option" where
  "PyArg_ParseTuple_array [PyArray x] = Some x"
| "PyArg_ParseTuple_array _ = None"

section \<open>The wrapper besselJ0\<close>

text \<open>
  \<open>besselJ0\<close> of \<open>_bessel.h\<close>. The routines it maps over the data are not among the
  sources; a successful call is described by the type number of the output array, its
  length, the C type the data pointer is cast to and the routine applied to each element.
  The variable \<open>dim\<close> of the source is \<open>dim0\<close> here. When the array is empty the
  wrapper sets a \<open>TypeError\<close> but does not return, so the exception is still pending
  when the output is returned.
\<close>

text \<open>With the 64-bit \<open>long\<close> above, the type numbers of the arrays whose elements are
  unsigned 64-bit integers: \<open>NPY_ULONG\<close>, of \<open>unsigned long\<close>, and \<open>NPY_ULONGLONG\<close>, of
  \<open>unsigned long long\<close>.\<close>

definition unsigned_64 :: "npy_type \<Rightarrow> bool" where
  "unsigned_64 t = (t = NPY_ULONG \<or> t = NPY_ULONGLONG)"

datatype c_type =
    C_float | C_double | C_long_double | C_char | C_unsigned_char | C_short
  | C_unsigned_short | C_int | C_unsigned_int | C_long | C_unsigned_long
  | C_long_long | C_unsigned_long_long

datatype J0_routine =
    BesselJ0_Float | BesselJ0_Double | BesselJ0_Long_Double | BesselJ0_Char
  | BesselJ0_UChar | BesselJ0_Short | BesselJ0_UShort | BesselJ0_Int | BesselJ0_UInt
  | BesselJ0_Long | BesselJ0_ULong | BesselJ0_Long_Long

record J0_output =
  out_type :: npy_type
  out_dim :: int
  cast_to :: c_type
  routine :: J0_routine
  pending :: "py_error option"

text \<open>The chain of comparisons in the last branch, for the integer types.\<close>

definition besselJ0_integer :: "npy_type \<Rightarrow> (c_type \<times> J0_routine) option" where
  "besselJ0_integer t =
     (if t = NPY_BYTE then Some (C_char, BesselJ0_Char)
      else if t = NPY_UBYTE then Some (C_unsigned_char, BesselJ0_UChar)
      else if t = NPY_SHORT then Some (C_short, BesselJ0_Short)
      else if t = NPY_USHORT then Some (C_unsigned_short, BesselJ0_UShort)
      else if t = NPY_INT then Some (C_int, BesselJ0_Int)
      else if t = NPY_UINT then Some (C_unsigned_int, BesselJ0_UInt)
      else if t = NPY_LONG then Some (C_long, BesselJ0_Long)
      else if t = NPY_ULONG then Some (C_unsigned_long, BesselJ0_ULong)
      else if t = NPY_LONGLONG then Some (C_long_long, BesselJ0_Long_Long)
      else if t = NPY_ULONG then Some (C_unsigned_long_long, BesselJ0_Long_Long)
      else None)"

definition besselJ0 :: "PyObject list \<Rightarrow> py_error + J0_output" where
  "besselJ0 args =
     (case PyArg_ParseTuple_array args of
        None \<Rightarrow> Inl PyExc_TypeError
      | Some x \<Rightarrow>
         (case PyArray_DIM0 x of
            None \<Rightarrow> Inl Segfault
          | Some dim0 \<Rightarrow>
             if PyArray_NDIM x \<noteq> 1 then Inl PyExc_TypeError
             else
               (let err = (if dim0 = 0 then Some PyExc_TypeError else None);
                    t = typenum x
                in if t = NPY_FLOAT then
                     Inr \<lparr>out_type = NPY_FLOAT, out_dim = dim0, cast_to = C_float,
                          routine = BesselJ0_Float, pending = err\<rparr>
                   else if t = NPY_DOUBLE then
                     Inr \<lparr>out_type = NPY_DOUBLE, out_dim = dim0, cast_to = C_double,
                          routine = BesselJ0_Double, pending = err\<rparr>
                   else if t = NPY_LONGDOUBLE then
                     Inr \<lparr>out_type = NPY_LONGDOUBLE, out_dim = dim0, cast_to = C_long_double,
                          routine = BesselJ0_Long_Double, pending = err\<rparr>
                   else
                     (case besselJ0_integer t of
                        Some (c, f) \<Rightarrow>
                          Inr \<lparr>out_type = NPY_DOUBLE, out_dim = dim0, cast_to = c,
                               routine = f, pending = err\<rparr>
                      | None \<Rightarrow> Inl PyExc_TypeError))))"

section \<open>The wrapper compute\_norm\_eq\<close>

text \<open>
  \<open>compute_norm_eq\<close> of the wrapper module. \<open>PyTuple_GetItem(args, 0)\<close> is null
  on an empty tuple and \<open>PyLong_Check\<close> reads through it. The routines \<open>Normeq_Float\<close>,
  \<open>Normeq_Double\<close> and the others are not among the sources: a call that reaches one
  returns \<open>Normeq_of\<close> the routine, the data address and the length, which stands for
  \<open>PyFloat_FromDouble\<close> of the routine's result; a call that returns an object it
  built itself returns \<open>Object\<close> of it. The length is held in a 32-bit \<open>npy_int\<close>, named
  \<open>dim\<close> in the source and \<open>dim0\<close> here.
\<close>

datatype Normeq_routine =
    Normeq_Float | Normeq_Double | Normeq_Long_Double | Normeq_Short | Normeq_Int
  | Normeq_Long | Normeq_Long_Long

datatype norm_eq_result = Object PyObject | Normeq_of Normeq_routine nat "32 word"

definition compute_norm_eq :: "PyObject list \<Rightarrow> py_error + norm_eq_result" where
  "compute_norm_eq args =
     (case args of
        [] \<Rightarrow> Inl Segfault
      | tuple # _ \<Rightarrow>
         if PyLong_Check tuple then
           (case PyArg_ParseTuple_l args of
              Some normeq \<Rightarrow> Inr (Object (PyLong_FromLong normeq))
            | None \<Rightarrow> Inl PyExc_TypeError)
         else if PyFloat_Check tuple then
           (case PyArg_ParseTuple_d args of
              Some normeq \<Rightarrow> Inr (Object (PyFloat_FromDouble normeq))
            | None \<Rightarrow> Inl PyExc_TypeError)
         else
           (case PyArg_ParseTuple_array args of
              Some arr \<Rightarrow>
                if PyArray_NDIM arr \<noteq> 1 then Inl PyExc_TypeError
                else
                  (case PyArray_DIM0 arr of
                     None \<Rightarrow> Inl Segfault
                   | Some d \<Rightarrow>
                      (let t = typenum arr; dim0 = (word_of_int d :: 32 word)
                       in if dim0 = 0 then Inl PyExc_TypeError
                          else if t = NPY_FLOAT then Inr (Normeq_of Normeq_Float (data arr) dim0)
                          else if t = NPY_DOUBLE then Inr (Normeq_of Normeq_Double (data arr) dim0)
                          else if t = NPY_LONGDOUBLE then
                            Inr (Normeq_of Normeq_Long_Double (data arr) dim0)
                          else if t = NPY_SHORT then Inr (Normeq_of Normeq_Short (data arr) dim0)
                          else if t = NPY_INT then Inr (Normeq_of Normeq_Int (data arr) dim0)
                          else if t = NPY_LONG then Inr (Normeq_of Normeq_Long (data arr) dim0)
                          else if t = NPY_LONGLONG then
                            Inr (Normeq_of Normeq_Long_Long (data arr) dim0)
                          else Inl PyExc_TypeError))
            | None \<Rightarrow> Inl PyExc_TypeError))"

section \<open>The transform driver fresnel\_transform\<close>

text \<open>
  \<open>fresnel_transform\<close> of the wrapper module, from the point where
  \<open>PyArg_ParseTuple\<close> has filled its variables and the loop over the perturbation list
  has stored five numbers. The structure \<open>DLPObj\<close> and the six correction routines are
  declared in a header that is not among the sources: the structure has the fields the
  wrapper assigns and reads, with the types of the variables assigned to them, and the
  routines are a parameter \<open>run\<close> that takes the structure and the heap and returns
  both. The wrapper never initialises \<open>status\<close>; \<open>status0\<close> is what the field holds
  when the routine is entered. \<open>start\<close> and \<open>n_used\<close> are C \<open>long\<close>s: they are compared
  as signed numbers, and their sum wraps at 64 bits.
\<close>

type_synonym uchar = "8 word"

record fresnel_args =
  a_T_in :: PyArrayObject
  a_rho_km_vals :: PyArrayObject
  a_F_km_vals :: PyArrayObject
  a_phi_rad_vals :: PyArrayObject
  a_kd_vals :: PyArrayObject
  a_B_rad_vals :: PyArrayObject
  a_D_km_vals :: PyArrayObject
  a_w_km_vals :: PyArrayObject
  a_perturb :: "double \<times> double \<times> double \<times> double \<times> double"
  a_start :: long
  a_n_used :: long
  a_wtype :: uchar
  a_use_norm :: uchar
  a_use_fwd :: uchar
  a_use_fft :: uchar
  a_order :: uchar
  a_interp :: uchar
  a_ecc :: double
  a_peri :: double

record DLPObj =
  T_in :: nat
  rho_km_vals :: nat
  F_km_vals :: nat
  phi_rad_vals :: nat
  kd_vals :: nat
  B_rad_vals :: nat
  D_km_vals :: nat
  w_km_vals :: nat
  T_out :: nat
  arr_size :: int
  start :: long
  n_used :: long
  wtype :: uchar
  use_norm :: uchar
  use_fwd :: uchar
  order :: uchar
  interp :: uchar
  ecc :: double
  peri :: double
  perturb :: "double \<times> double \<times> double \<times> double \<times> double"
  status :: int

text \<open>The heap of \<open>malloc\<close>: the blocks that are allocated and not freed. The wrapper does
  not test the pointer \<open>malloc\<close> returns, and the model lets every request succeed.\<close>

record heap =
  live :: "nat set"
  next_block :: nat

definition malloc :: "heap \<Rightarrow> nat \<times> heap" where
  "malloc h =
     (next_block h, h\<lparr>live := insert (next_block h) (live h), next_block := Suc (next_block h)\<rparr>)"

text \<open>The three tests made on each real array. The length compared with \<open>arr_size\<close> is
  read from \<open>sized\<close>, which is the array itself except for \<open>D_km_vals\<close>, where the
  source reads it from \<open>B_rad_vals\<close>.\<close>

definition real_array_error :: "PyArrayObject \<Rightarrow> PyArrayObject \<Rightarrow> int \<Rightarrow> py_error option" where
  "real_array_error x sized n =
     (if typenum x \<noteq> NPY_DOUBLE then Some PyExc_TypeError
      else if PyArray_NDIM x \<noteq> 1 then Some PyExc_IndexError
      else (case PyArray_DIM0 sized of
              None \<Rightarrow> Some Segfault
            | Some d \<Rightarrow> if d \<noteq> n then Some PyExc_IndexError else None))"

text \<open>The first test that fails, in the order of the source.\<close>

fun first_error :: "py_error option list \<Rightarrow> py_error option" where
  "first_error [] = None"
| "first_error (None # es) = first_error es"
| "first_error (Some e # es) = Some e"

definition fresnel_transform_checks :: "fresnel_args \<Rightarrow> int \<Rightarrow> py_error option" where
  "fresnel_transform_checks a n =
     first_error
       [if typenum (a_T_in a) \<noteq> NPY_CDOUBLE then Some PyExc_TypeError
        else if PyArray_NDIM (a_T_in a) \<noteq> 1 then Some PyExc_IndexError else None,
        real_array_error (a_rho_km_vals a) (a_rho_km_vals a) n,
        real_array_error (a_F_km_vals a) (a_F_km_vals a) n,
        real_array_error (a_phi_rad_vals a) (a_phi_rad_vals a) n,
        real_array_error (a_kd_vals a) (a_kd_vals a) n,
        real_array_error (a_B_rad_vals a) (a_B_rad_vals a) n,
        real_array_error (a_D_km_vals a) (a_B_rad_vals a) n,
        real_array_error (a_w_km_vals a) (a_w_km_vals a) n,
        if sint (a_start a) > n then Some PyExc_IndexError
        else if sint (a_start a + a_n_used a) > n then Some PyExc_IndexError else None]"

text \<open>The structure as the wrapper has filled it when it calls a correction routine.\<close>

definition fill_dlp :: "fresnel_args \<Rightarrow> int \<Rightarrow> int \<Rightarrow> nat \<Rightarrow> DLPObj" where
  "fill_dlp a n status0 p =
     \<lparr>T_in = data (a_T_in a), rho_km_vals = data (a_rho_km_vals a),
      F_km_vals = data (a_F_km_vals a), phi_rad_vals = data (a_phi_rad_vals a),
      kd_vals = data (a_kd_vals a), B_rad_vals = data (a_B_rad_vals a),
      D_km_vals = data (a_D_km_vals a), w_km_vals = data (a_w_km_vals a),
      T_out = p, arr_size = n, start = a_start a, n_used = a_n_used a,
      wtype = a_wtype a, use_norm = a_use_norm a, use_fwd = a_use_fwd a,
      order = a_order a, interp = a_interp a, ecc = a_ecc a, peri = a_peri a,
      perturb = a_perturb a, status = status0\<rparr>"

text \<open>The routine the nested conditionals call.\<close>

datatype correction =
    DiffractionCorrectionSimpleFFT
  | DiffractionCorrectionNewton
  | DiffractionCorrectionPerturbedNewton
  | DiffractionCorrectionEllipse
  | DiffractionCorrectionFresnel
  | DiffractionCorrectionLegendre

definition dispatch :: "uchar \<Rightarrow> DLPObj \<Rightarrow> correction" where
  "dispatch use_fft dlp =
     (if use_fft \<noteq> 0 then DiffractionCorrectionSimpleFFT
      else if order dlp = 0 then
        (if d_eq (ecc dlp) (Finite 0) \<and> d_eq (peri dlp) (Finite 0) then
           (case perturb dlp of (p0, p1, p2, p3, p4) \<Rightarrow>
              if d_eq p0 (Finite 0) \<and> d_eq p1 (Finite 0) \<and> d_eq p2 (Finite 0) \<and>
                 d_eq p3 (Finite 0) \<and> d_eq p4 (Finite 0)
              then DiffractionCorrectionNewton
              else DiffractionCorrectionPerturbedNewton)
         else DiffractionCorrectionEllipse)
      else if order dlp = 1 then DiffractionCorrectionFresnel
      else DiffractionCorrectionLegendre)"

text \<open>What the wrapper returns once the routine has set \<open>status\<close>: on zero the output
  array built on \<open>T_out\<close>, of length \<open>n_used + 1\<close>, and on any other value \<open>NULL\<close> with an
  exception. No branch calls \<open>free\<close>.\<close>

definition fresnel_transform_return :: "DLPObj \<Rightarrow> py_error + PyArrayObject" where
  "fresnel_transform_return dlp =
     (if status dlp = 0 then
        Inr \<lparr>typenum = NPY_CDOUBLE, dims = [sint (n_used dlp + 1)], data = T_out dlp\<rparr>
      else if status dlp = 1 then Inl PyExc_TypeError
      else if status dlp = 2 then Inl PyExc_IndexError
      else if status dlp = 3 then Inl PyExc_MemoryError
      else if status dlp = 4 then Inl PyExc_MemoryError
      else Inl PyExc_TypeError)"

definition fresnel_transform ::
    "(correction \<Rightarrow> DLPObj \<times> heap \<Rightarrow> DLPObj \<times> heap) \<Rightarrow> int \<Rightarrow> fresnel_args \<Rightarrow> heap \<Rightarrow>
     (py_error + PyArrayObject) \<times> heap" where
  "fresnel_transform run status0 a h =
     (case PyArray_DIM0 (a_T_in a) of
        None \<Rightarrow> (Inl Segfault, h)
      | Some n \<Rightarrow>
         (case fresnel_transform_checks a n of
            Some e \<Rightarrow> (Inl e, h)
          | None \<Rightarrow>
             (case malloc h of (p, h1) \<Rightarrow>
                (case run (dispatch (a_use_fft a) (fill_dlp a n status0 p))
                          (fill_dlp a n status0 p, h1) of
                   (dlp, h2) \<Rightarrow> (fresnel_transform_return dlp, h2)))))"

text \<open>
  Concrete calls on which the wrapper is run below: eight one-dimensional arrays of four
  samples, and a stand-in for a correction routine that records the status \<open>s\<close> and
  touches nothing else.
\<close>

definition sample_array :: "npy_type \<Rightarrow> nat \<Rightarrow> PyArrayObject" where
  "sample_array t p = \<lparr>typenum = t, dims = [4], data = p\<rparr>"

definition sample_args :: fresnel_args where
  "sample_args =
     \<lparr>a_T_in = sample_array NPY_CDOUBLE 100, a_rho_km_vals = sample_array NPY_DOUBLE 101,
      a_F_km_vals = sample_array NPY_DOUBLE 102, a_phi_rad_vals = sample_array NPY_DOUBLE 103,
      a_kd_vals = sample_array NPY_DOUBLE 104, a_B_rad_vals = sample_array NPY_DOUBLE 105,
      a_D_km_vals = sample_array NPY_DOUBLE 106, a_w_km_vals = sample_array NPY_DOUBLE 107,
      a_perturb = (Finite 0, Finite 0, Finite 0, Finite 0, Finite 0),
      a_start = 1, a_n_used = 2, a_wtype = 0, a_use_norm = 1, a_use_fwd = 0, a_use_fft = 0,
      a_order = 0, a_interp = 0, a_ecc = Finite 0, a_peri = Finite 0\<rparr>"

definition report_status :: "int \<Rightarrow> correction \<Rightarrow> DLPObj \<times> heap \<Rightarrow> DLPObj \<times> heap" where
  "report_status s c x = (case x of (dlp, h) \<Rightarrow> (dlp\<lparr>status := s\<rparr>, h))"

definition empty_heap :: heap where
  "empty_heap = \<lparr>live = {}, next_block = 0\<rparr>"

section \<open>Facts about rounding\<close>

lemma finite_binary64: "finite binary64"
  by (simp add: binary64_def)

lemma binary64_I:
  "\<bar>m\<bar> < 2 ^ 53 \<Longrightarrow> - 1074 \<le> e \<Longrightarrow> e \<le> 971 \<Longrightarrow> of_int m * 2 powi e \<in> binary64"
  unfolding binary64_def by (rule image_eqI[where x = "(m, e)"]) auto

lemma binary64_E:
  assumes "v \<in> binary64"
  obtains m e where "v = of_int m * 2 powi e" "\<bar>m\<bar> < 2 ^ 53" "- 1074 \<le> e" "e \<le> 971"
  using assms unfolding binary64_def by auto

lemma zero_binary64: "0 \<in> binary64"
  using binary64_I[of 0 0] by simp


lemma small_int_binary64: "\<bar>m\<bar> < 2 ^ 53 \<Longrightarrow> of_int m \<in> binary64"
  using binary64_I[of m 0] by simp



text \<open>Every value of the format is a whole multiple of the smallest positive one.\<close>

lemma binary64_multiple:
  assumes "v \<in> binary64"
  obtains k :: int where "v = of_int k * 2 powi (- 1074)"
proof -
  obtain m e where v: "v = of_int m * 2 powi e" "\<bar>m\<bar> < 2 ^ 53" "- 1074 \<le> e" "e \<le> 971"
    using assms by (rule binary64_E)
  have "(2::real) powi e = 2 powi (e + 1074) * 2 powi (- 1074)"
    using power_int_add[of "2::real" "e + 1074" "- 1074"]
    by (simp only: add_uminus_conv_diff add_diff_cancel) simp
  also have "(2::real) powi (e + 1074) = of_int (2 ^ nat (e + 1074))"
    using v(3) by (simp add: power_int_nonneg_exp)
  finally have "v = of_int (m * 2 ^ nat (e + 1074)) * 2 powi (- 1074)"
    by (simp add: v(1))
  then show ?thesis by (rule that)
qed

text \<open>Every value of the format lies below the overflow threshold.\<close>

lemma binary64_bound:
  assumes "v \<in> binary64"
  shows "\<bar>v\<bar> < 2 ^ 1024 - 2 ^ 970"
proof -
  obtain m e where v: "v = of_int m * 2 powi e" "\<bar>m\<bar> < 2 ^ 53" "- 1074 \<le> e" "e \<le> 971"
    using assms by (rule binary64_E)
  have m: "\<bar>real_of_int m\<bar> \<le> 2 ^ 53 - 1"
  proof -
    have "\<bar>m\<bar> \<le> 2 ^ 53 - 1" using v(2) by simp
    then have "real_of_int \<bar>m\<bar> \<le> real_of_int (2 ^ 53 - 1)" by (rule of_int_le_iff[THEN iffD2])
    then show ?thesis by simp
  qed
  have e: "(2::real) powi e \<le> 2 powi 971"
    using v(4) by (intro power_int_increasing) simp_all
  have "\<bar>v\<bar> = \<bar>real_of_int m\<bar> * 2 powi e"
    by (simp add: v(1) abs_mult)
  also have "\<dots> \<le> (2 ^ 53 - 1) * 2 powi 971"
    using m e by (intro mult_mono) simp_all
  also have "\<dots> = 2 ^ 1024 - 2 ^ 971"
    by (simp add: power_int_nonneg_exp algebra_simps flip: power_add)
  also have "\<dots> < 2 ^ 1024 - 2 ^ 970"
    by simp
  finally show ?thesis .
qed

lemma finite_nearest: "finite (nearest r)"
  using finite_binary64 by (simp add: nearest_def)


lemma nearest_D: "v \<in> nearest r \<Longrightarrow> v \<in> binary64 \<and> (\<forall>u\<in>binary64. \<bar>r - v\<bar> \<le> \<bar>r - u\<bar>)"
  by (simp add: nearest_def)

lemma nearest_self: "v \<in> binary64 \<Longrightarrow> nearest v = {v}"
  by (auto simp add: nearest_def)



text \<open>Rounding leaves a value of the format as it is.\<close>

lemma rnd_binary64: "v \<in> binary64 \<Longrightarrow> rnd v = Finite v"
  using binary64_bound[of v] by (simp add: rnd_def nearest_self)









text \<open>Half of the smallest positive value lies midway between it and zero, and zero has
  the even significand.\<close>

lemma rnd_half_tiny: "rnd (2 powi (- 1075)) = Finite 0"
proof -
  define q :: real where "q = 2 powi (- 1074)"
  define r :: real where "r = q / 2"
  have q: "0 < q" by (simp add: q_def)
  have r: "(2::real) powi (- 1075) = r" unfolding r_def q_def by simp
  have small: "\<bar>r\<bar> < 2 ^ 1024 - 2 ^ 970"
  proof -
    have "(2::real) powi (- 1075) \<le> 1" by simp
    then have "\<bar>r\<bar> \<le> 1" using q unfolding r r_def by linarith
    then show ?thesis by simp
  qed
  have z: "0 \<in> nearest r"
  proof -
    have "\<bar>r - 0\<bar> \<le> \<bar>r - u\<bar>" if u_in: "u \<in> binary64" for u
    proof -
      obtain k :: int where u: "u = of_int k * q"
        using u_in unfolding q_def by (rule binary64_multiple)
      have "k \<le> 0 \<or> 1 \<le> k" by linarith
      then show ?thesis
      proof
        assume "k \<le> 0"
        then have "real_of_int k \<le> 0" by simp
        then have "u \<le> 0" using q unfolding u by (simp add: mult_le_0_iff)
        then show ?thesis using q unfolding r_def by linarith
      next
        assume "1 \<le> k"
        then have "1 \<le> real_of_int k" by simp
        then have "1 * q \<le> u" using q unfolding u by (intro mult_right_mono) simp_all
        then show ?thesis using q unfolding r_def by linarith
      qed
    qed
    then show ?thesis using zero_binary64 by (simp add: nearest_def)
  qed
  have lower: "0 \<le> v" if v_in: "v \<in> nearest r" for v
  proof -
    have "\<bar>r - v\<bar> \<le> \<bar>r - 0\<bar>" using nearest_D[OF v_in] zero_binary64 by blast
    then show ?thesis using q unfolding r_def by linarith
  qed
  have m: "Min (nearest r) = 0"
    using finite_nearest z lower by (intro Min_eqI) auto
  have e: "even_significand 0"
    unfolding even_significand_def by (rule exI[of _ 0], rule exI[of _ "- 1074"]) simp
  have "rnd r = Finite 0" using small m e by (simp add: rnd_def)
  then show ?thesis unfolding r .
qed

lemma tiny_binary64: "2 powi (- 1074) \<in> binary64"
  using binary64_I[of 1 "- 1074"] by simp

lemma half_of_tiny: "d_mul (Finite (1 / 2)) (Finite (2 powi (- 1074))) = Finite 0"
proof -
  have "(1 / 2) * (2::real) powi (- 1074) = 2 powi (- 1075)" by simp
  then show ?thesis using rnd_half_tiny by (simp del: power_int_minus)
qed

section \<open>Facts about the constants and the arithmetic\<close>




lemma d_eq_NaN: "d_eq NaN y = False"
  by (cases y) simp_all

lemma half_mul_eq_div_two: "d_mul (Finite (1 / 2)) W = d_div W (Finite 2)"
  by (cases W) (simp_all add: inf_of_sign_def)

text \<open>From \<open>2^(g+52)\<close> upwards the values of the format are whole multiples of \<open>2^g\<close>.\<close>

lemma binary64_grid:
  assumes "u \<in> binary64" "2 powi (g + 52) \<le> u"
  obtains k :: int where "u = of_int k * 2 powi g"
proof -
  obtain m e where u: "u = of_int m * 2 powi e" "\<bar>m\<bar> < 2 ^ 53" "- 1074 \<le> e" "e \<le> 971"
    using assms(1) by (rule binary64_E)
  have pos: "(0::real) < 2 powi (g + 52)" by simp
  have m_pos: "0 < real_of_int m"
  proof (rule ccontr)
    assume "\<not> 0 < real_of_int m"
    then have "real_of_int m * 2 powi e \<le> 0" by (simp add: mult_le_0_iff)
    then show False using assms(2) pos u(1) by linarith
  qed
  have m_lt: "real_of_int m < 2 ^ 53"
  proof -
    have "m < 2 ^ 53" using u(2) by simp
    then have "real_of_int m < real_of_int (2 ^ 53)" by (rule of_int_less_iff[THEN iffD2])
    then show ?thesis by simp
  qed
  have ge: "g \<le> e"
  proof (rule ccontr)
    assume "\<not> g \<le> e"
    then have "e \<le> g - 1" by simp
    then have "(2::real) powi e \<le> 2 powi (g - 1)"
      by (intro power_int_increasing) simp_all
    then have "real_of_int m * 2 powi e \<le> real_of_int m * 2 powi (g - 1)"
      using m_pos by (intro mult_left_mono) simp_all
    also have "\<dots> < 2 ^ 53 * 2 powi (g - 1)"
      using m_lt by (intro mult_strict_right_mono) simp_all
    also have "\<dots> = 2 powi 53 * 2 powi (g - 1)" by simp
    also have "\<dots> = 2 powi (53 + (g - 1))"
      by (rule power_int_add[symmetric]) simp
    also have "\<dots> = 2 powi (g + 52)" by (simp add: algebra_simps)
    finally show False using assms(2) u(1) by linarith
  qed
  have "(2::real) powi e = 2 powi ((e - g) + g)" by simp
  also have "\<dots> = 2 powi (e - g) * 2 powi g"
    by (rule power_int_add) simp
  also have "(2::real) powi (e - g) = of_int (2 ^ nat (e - g))"
    using ge by (simp add: power_int_nonneg_exp)
  finally have "u = of_int (m * 2 ^ nat (e - g)) * 2 powi g"
    by (simp add: u(1))
  then show ?thesis by (rule that)
qed

text \<open>A real that lies within half a grid step of a value of the format, and at least half
  a step above the start of that value's binade, is rounded to that value.\<close>

lemma rnd_to_grid_point:
  assumes v0: "v0 \<in> binary64" "v0 = of_int k0 * 2 powi g"
    and near: "\<bar>r - v0\<bar> < 2 powi g / 2"
    and above: "2 powi (g + 52) + 2 powi g / 2 \<le> r"
    and small: "\<bar>r\<bar> < 2 ^ 1024 - 2 ^ 970"
  shows "rnd r = Finite v0"
proof -
  define q :: real where "q = 2 powi g"
  have q: "0 < q" by (simp add: q_def)
  have far: "\<bar>r - v0\<bar> < \<bar>r - u\<bar>" if u: "u \<in> binary64" "u \<noteq> v0" for u
  proof (cases "2 powi (g + 52) \<le> u")
    case True
    obtain k :: int where k: "u = of_int k * q"
      using u(1) True unfolding q_def by (rule binary64_grid)
    have "k \<noteq> k0" using u(2) k v0(2) by (auto simp add: q_def)
    then have "k \<le> k0 - 1 \<or> k0 + 1 \<le> k" by linarith
    then have "u \<le> v0 - q \<or> v0 + q \<le> u"
    proof
      assume "k \<le> k0 - 1"
      then have "real_of_int k \<le> real_of_int (k0 - 1)" by (rule of_int_le_iff[THEN iffD2])
      then have "real_of_int k * q \<le> real_of_int (k0 - 1) * q"
        using q by (intro mult_right_mono) simp_all
      then show ?thesis using k v0(2) by (simp add: q_def algebra_simps)
    next
      assume "k0 + 1 \<le> k"
      then have "real_of_int (k0 + 1) \<le> real_of_int k" by (rule of_int_le_iff[THEN iffD2])
      then have "real_of_int (k0 + 1) * q \<le> real_of_int k * q"
        using q by (intro mult_right_mono) simp_all
      then show ?thesis using k v0(2) by (simp add: q_def algebra_simps)
    qed
    then show ?thesis using near q unfolding q_def[symmetric] by linarith
  next
    case False
    then show ?thesis using near above q unfolding q_def[symmetric] by linarith
  qed
  have n: "nearest r = {v0}"
  proof (rule set_eqI, rule iffI)
    fix v assume v: "v \<in> nearest r"
    have "\<bar>r - v\<bar> \<le> \<bar>r - v0\<bar>" using nearest_D[OF v] v0(1) by blast
    moreover have "v \<in> binary64" using nearest_D[OF v] by simp
    ultimately show "v \<in> {v0}" using far[of v] by fastforce
  next
    fix v assume "v \<in> {v0}"
    then have v: "v = v0" by simp
    have "\<bar>r - v0\<bar> \<le> \<bar>r - u\<bar>" if "u \<in> binary64" for u
      using far[of u] that by (cases "u = v0") simp_all
    then show "v \<in> nearest r" using v0(1) v by (simp add: nearest_def)
  qed
  show ?thesis using small by (simp add: rnd_def n)
qed

text \<open>The doubles that the three literals denote.\<close>

lemma RCPR_EULER_E_value: "RCPR_EULER_E = Finite (828390857088487 / 2 ^ 51)"
  unfolding RCPR_EULER_E_def
proof (rule rnd_to_grid_point[where ?k0.0 = 6627126856707896 and g = "- 54"])
  show "(828390857088487 / 2 ^ 51 :: real) \<in> binary64"
    using binary64_I[of 6627126856707896 "- 54"] by simp
qed simp_all

lemma ONE_PI_value: "ONE_PI = Finite (884279719003555 / 2 ^ 48)"
  unfolding ONE_PI_def
proof (rule rnd_to_grid_point[where ?k0.0 = 7074237752028440 and g = "- 51"])
  show "(884279719003555 / 2 ^ 48 :: real) \<in> binary64"
    using binary64_I[of 7074237752028440 "- 51"] by simp
qed simp_all

lemma EPS_value: "EPS = Finite (3022314549036573 / 2 ^ 78)"
  unfolding EPS_def
proof (rule rnd_to_grid_point[where ?k0.0 = 6044629098073146 and g = "- 79"])
  show "(3022314549036573 / 2 ^ 78 :: real) \<in> binary64"
    using binary64_I[of 6044629098073146 "- 79"] by simp
qed simp_all







section \<open>The Lambert W function and the resolution inverse\<close>



text \<open>
  Claim C5. The claim asks for a domain error, that is NaN, from \<open>LambertW\<close> applied to
  NaN. Every comparison with NaN is false, so the call falls through the tests for
  \<open>x == -RCPR_EULER_E\<close> and \<open>x < -RCPR_EULER_E\<close> to the last branch, written for
  \<open>+\<infinity>\<close>, and returns \<open>+\<infinity>\<close>.
\<close>

theorem LambertW_Double_NaN: "LambertW_Double NaN = Some PosInf"
  by (simp add: LambertW_Double_def d_gt_def d_eq_NaN)

text \<open>\<open>Resolution_Inverse_Double\<close> has the same shape: NaN fails both of its tests and
  reaches the branch written for \<open>+\<infinity>\<close>. Its other two branches that do not call
  \<open>LambertW_Double\<close> return NaN for every \<open>x \<le> 1\<close> and \<open>0\<close> for \<open>+\<infinity>\<close>.\<close>

lemma Resolution_Inverse_Double_NaN: "Resolution_Inverse_Double NaN = Some (Finite 0)"
  by (simp add: Resolution_Inverse_Double_def d_le_def)

lemma Resolution_Inverse_Double_outside:
  "(d_le x (Finite 1) \<longrightarrow> Resolution_Inverse_Double x = Some NaN) \<and>
   Resolution_Inverse_Double PosInf = Some (Finite 0)"
  by (simp add: Resolution_Inverse_Double_def d_le_def)

section \<open>The Kaiser-Bessel window\<close>

lemma Kaiser_Bessel_outside:
  assumes "\<not> d_lt (fabs x) (d_mul (Finite (1 / 2)) W)"
  shows "rssringoccs_Kaiser_Bessel_Double x W alpha = Finite 0"
  using assms by (simp add: rssringoccs_Kaiser_Bessel_Double_def Let_def)









text \<open>
  Claim C7, as stated: with \<open>alpha = 0\<close> the window is \<open>1\<close> whenever \<open>|x| < W/2\<close>. It fails
  at \<open>x = 0\<close> and the smallest positive double \<open>W = 2^-1074\<close>: the exact half of \<open>W\<close> is
  positive, but \<open>0.5*W\<close> is rounded to zero and the window is \<open>0\<close>.
\<close>

theorem Kaiser_Bessel_rect_counterexample:
  "2 powi (- 1074) \<in> binary64 \<and> \<bar>0 :: real\<bar> < 2 powi (- 1074) / 2 \<and>
   rssringoccs_Kaiser_Bessel_Double (Finite 0) (Finite (2 powi (- 1074))) (Finite 0) = Finite 0"
proof -
  have k: "rssringoccs_Kaiser_Bessel_Double (Finite 0) (Finite (2 powi (- 1074))) (Finite 0) = Finite 0"
    by (rule Kaiser_Bessel_outside)
      (simp only: half_of_tiny fabs.simps abs_zero d_lt.simps less_irrefl not_False_eq_True)
  have p: "\<bar>0 :: real\<bar> < 2 powi (- 1074) / 2" by simp
  show ?thesis using k p tiny_binary64 by simp
qed

text \<open>
  Claim C7, amended. With \<open>alpha = 0\<close> the Kaiser-Bessel window is the rectangular window
  on the rounded half width: for every \<open>x\<close> and every \<open>W\<close> it is \<open>1\<close> when \<open>|x| < W/2\<close> and \<open>0\<close>
  otherwise, where \<open>W/2\<close> is the half of \<open>W\<close> rounded to \<open>double\<close>, the value of \<open>0.5*W\<close>.
  Whenever the exact half of \<open>W\<close> is a double, which holds for every double but the odd
  multiples of \<open>2^-1074\<close>, that is the exact half.
\<close>

theorem Kaiser_Bessel_alpha_zero_is_rect:
  "rssringoccs_Kaiser_Bessel_Double x W (Finite 0) =
     (if d_lt (fabs x) (d_div W (Finite 2)) then Finite 1 else Finite 0) \<and>
   (w / 2 \<in> binary64 \<longrightarrow>
      rssringoccs_Kaiser_Bessel_Double x (Finite w) (Finite 0) =
        (if d_lt (fabs x) (Finite (w / 2)) then Finite 1 else Finite 0))"
proof (intro conjI impI)
  show g: "rssringoccs_Kaiser_Bessel_Double x W (Finite 0) =
     (if d_lt (fabs x) (d_div W (Finite 2)) then Finite 1 else Finite 0)" for W
    by (simp add: rssringoccs_Kaiser_Bessel_Double_def half_mul_eq_div_two)
  assume "w / 2 \<in> binary64"
  then have "d_div (Finite w) (Finite 2) = Finite (w / 2)"
    using rnd_binary64[of "w / 2"] by simp
  then show "rssringoccs_Kaiser_Bessel_Double x (Finite w) (Finite 0) =
        (if d_lt (fabs x) (Finite (w / 2)) then Finite 1 else Finite 0)"
    using g[of "Finite w"] by simp
qed

theorem Kaiser_Bessel_alpha_zero_is_rect_witness:
  "(4::real) / 2 \<in> binary64 \<and>
   rssringoccs_Kaiser_Bessel_Double (Finite 1) (Finite 4) (Finite 0) = Finite 1 \<and>
   rssringoccs_Kaiser_Bessel_Double (Finite (- 3)) (Finite 4) (Finite 0) = Finite 0 \<and>
   rssringoccs_Kaiser_Bessel_Double NaN (Finite 4) (Finite 0) = Finite 0"
proof -
  have two: "(4::real) / 2 \<in> binary64" using small_int_binary64[of 2] by simp
  have r2: "rnd 2 = Finite 2" using rnd_binary64[of 2] two by simp
  show ?thesis
    using Kaiser_Bessel_alpha_zero_is_rect[of "Finite 1" "Finite 4" 4]
      Kaiser_Bessel_alpha_zero_is_rect[of "Finite (- 3)" "Finite 4" 4]
      Kaiser_Bessel_alpha_zero_is_rect[of NaN "Finite 4" 4] two
    by (simp add: r2)
qed

section \<open>The wrappers besselJ0 and compute\_norm\_eq\<close>

text \<open>
  Claim C9, as stated: every one-dimensional array of unsigned 64-bit integers matches
  no branch of \<open>besselJ0\<close>. It fails for the arrays of type number \<open>NPY_ULONG\<close>, which
  hold unsigned 64-bit integers where \<open>long\<close> has 64 bits: they take the first of the
  two \<open>NPY_ULONG\<close> branches and \<open>BesselJ0_ULong\<close> is applied to their elements.
\<close>

theorem besselJ0_ulong_counterexample:
  "unsigned_64 NPY_ULONG \<and>
   besselJ0 [PyArray \<lparr>typenum = NPY_ULONG, dims = [3], data = 0\<rparr>] =
     Inr \<lparr>out_type = NPY_DOUBLE, out_dim = 3, cast_to = C_unsigned_long,
          routine = BesselJ0_ULong, pending = None\<rparr>"
  by (simp add: unsigned_64_def besselJ0_def PyArray_DIM0_def PyArray_NDIM_def
      besselJ0_integer_def)

text \<open>
  Claim C9, amended. In the chain of comparisons for the integer types, \<open>NPY_ULONG\<close> is
  compared twice and \<open>NPY_ULONGLONG\<close> never. So for every one-dimensional array whose
  type number is \<open>NPY_ULONGLONG\<close>, the type number of \<open>unsigned long long\<close>, \<open>besselJ0\<close>
  matches no branch and returns \<open>NULL\<close> with the \<open>TypeError\<close> of the last \<open>else\<close>; and
  no type number reaches the branch that casts the data to \<open>unsigned long long\<close>.
\<close>

theorem besselJ0_ulonglong_falls_through:
  "(typenum x = NPY_ULONGLONG \<and> length (dims x) = 1 \<longrightarrow>
      besselJ0 [PyArray x] = Inl PyExc_TypeError) \<and>
   (\<forall>t c f. besselJ0_integer t = Some (c, f) \<longrightarrow> c \<noteq> C_unsigned_long_long)"
proof (intro conjI impI allI)
  assume a: "typenum x = NPY_ULONGLONG \<and> length (dims x) = 1"
  then obtain d where d: "dims x = [d]"
    by (cases "dims x") auto
  show "besselJ0 [PyArray x] = Inl PyExc_TypeError"
    using a d
    by (simp add: besselJ0_def PyArray_DIM0_def PyArray_NDIM_def besselJ0_integer_def Let_def)
next
  fix t c f
  assume "besselJ0_integer t = Some (c, f)"
  then show "c \<noteq> C_unsigned_long_long"
    by (auto simp add: besselJ0_integer_def split: if_splits)
qed

theorem besselJ0_ulonglong_falls_through_witness:
  "typenum \<lparr>typenum = NPY_ULONGLONG, dims = [3], data = 0\<rparr> = NPY_ULONGLONG \<and>
   length (dims \<lparr>typenum = NPY_ULONGLONG, dims = [3], data = 0\<rparr>) = 1 \<and>
   besselJ0 [PyArray \<lparr>typenum = NPY_ULONGLONG, dims = [3], data = 0\<rparr>] = Inl PyExc_TypeError \<and>
   besselJ0_integer NPY_ULONG = Some (C_unsigned_long, BesselJ0_ULong) \<and>
   C_unsigned_long \<noteq> C_unsigned_long_long"
  using besselJ0_ulonglong_falls_through[of "\<lparr>typenum = NPY_ULONGLONG, dims = [3], data = 0\<rparr>"]
  by (simp add: besselJ0_integer_def)

lemma long_round_trip:
  assumes "- (2 ^ 63) \<le> n" and "n < 2 ^ 63"
  shows "sint (word_of_int n :: 64 word) = n"
  using assms by (simp add: sint_sbintrunc' signed_take_bit_int_eq_self)

text \<open>
  Claim C10, as stated: given a Python \<open>int\<close> or \<open>float\<close> in place of an array,
  \<open>compute_norm_eq\<close> returns that number unchanged. It fails for an \<open>int\<close> that does not
  fit a C \<open>long\<close>: at \<open>2^63\<close> the parse with format \<open>l\<close> fails and the wrapper raises
  \<open>TypeError\<close>.
\<close>

theorem compute_norm_eq_big_int_counterexample:
  "compute_norm_eq [PyLong (2 ^ 63)] = Inl PyExc_TypeError \<and>
   compute_norm_eq [PyLong (2 ^ 63)] \<noteq> Inr (Object (PyLong (2 ^ 63)))"
  by (simp add: compute_norm_eq_def PyLong_AsLong_def)

text \<open>
  Claim C10, amended. Given as its only argument a Python \<open>int\<close> within the range of a C
  \<open>long\<close>, from \<open>-2^63\<close> to \<open>2^63 - 1\<close>, or a Python \<open>float\<close>, \<open>compute_norm_eq\<close> returns that
  number unchanged; given an \<open>int\<close> outside that range it raises \<open>TypeError\<close>.
\<close>

theorem compute_norm_eq_scalar:
  "(- (2 ^ 63) \<le> n \<and> n < 2 ^ 63 \<longrightarrow> compute_norm_eq [PyLong n] = Inr (Object (PyLong n))) \<and>
   (\<not> (- (2 ^ 63) \<le> n \<and> n < 2 ^ 63) \<longrightarrow> compute_norm_eq [PyLong n] = Inl PyExc_TypeError) \<and>
   compute_norm_eq [PyFloat d] = Inr (Object (PyFloat d))"
  by (auto simp add: compute_norm_eq_def PyLong_AsLong_def PyLong_FromLong_def
      PyFloat_FromDouble_def long_round_trip)

theorem compute_norm_eq_scalar_witness:
  "- (2 ^ 63) \<le> (5::int) \<and> (5::int) < 2 ^ 63 \<and>
   compute_norm_eq [PyLong 5] = Inr (Object (PyLong 5)) \<and>
   \<not> (- (2 ^ 63) \<le> (2 ^ 64 :: int) \<and> (2 ^ 64 :: int) < 2 ^ 63) \<and>
   compute_norm_eq [PyLong (2 ^ 64)] = Inl PyExc_TypeError \<and>
   compute_norm_eq [PyFloat NaN] = Inr (Object (PyFloat NaN))"
  using compute_norm_eq_scalar[of 5 NaN] compute_norm_eq_scalar[of "2 ^ 64" NaN]
  by simp

section \<open>The transform driver\<close>

lemma sample_checks:
  "PyArray_DIM0 (a_T_in sample_args) = Some 4 \<and> fresnel_transform_checks sample_args 4 = None"
  by (simp add: sample_args_def sample_array_def PyArray_DIM0_def fresnel_transform_checks_def
      real_array_error_def PyArray_NDIM_def)

text \<open>
  Claim C1. The routine \<open>fresnel_transform\<close> calls is decided by \<open>use_fft\<close>, \<open>order\<close>,
  \<open>ecc\<close>, \<open>peri\<close> and the five perturbation coefficients alone: the FFT routine when
  \<open>use_fft\<close> is not zero; otherwise, for \<open>order = 0\<close>, Newton when \<open>ecc\<close> and \<open>peri\<close> are
  zero and all five coefficients are zero, perturbed Newton when \<open>ecc\<close> and \<open>peri\<close> are
  zero and some coefficient is not, and the elliptic routine when \<open>ecc\<close> or \<open>peri\<close> is not
  zero; the Fresnel routine for \<open>order = 1\<close>; and the Legendre routine for every other
  order. A call that passes the wrapper's tests on its arguments runs that routine on
  the structure it has filled and returns what \<open>status\<close> then asks for.
\<close>

theorem fresnel_transform_dispatch:
  "a_perturb a = (p0, p1, p2, p3, p4) \<Longrightarrow>
   (let c = dispatch (a_use_fft a) (fill_dlp a n status0 p);
        circular = (d_eq (a_ecc a) (Finite 0) \<and> d_eq (a_peri a) (Finite 0));
        unperturbed = (d_eq p0 (Finite 0) \<and> d_eq p1 (Finite 0) \<and> d_eq p2 (Finite 0) \<and>
                       d_eq p3 (Finite 0) \<and> d_eq p4 (Finite 0))
    in (a_use_fft a \<noteq> 0 \<longrightarrow> c = DiffractionCorrectionSimpleFFT) \<and>
       (a_use_fft a = 0 \<and> a_order a = 0 \<and> circular \<and> unperturbed \<longrightarrow>
          c = DiffractionCorrectionNewton) \<and>
       (a_use_fft a = 0 \<and> a_order a = 0 \<and> circular \<and> \<not> unperturbed \<longrightarrow>
          c = DiffractionCorrectionPerturbedNewton) \<and>
       (a_use_fft a = 0 \<and> a_order a = 0 \<and> \<not> circular \<longrightarrow>
          c = DiffractionCorrectionEllipse) \<and>
       (a_use_fft a = 0 \<and> a_order a = 1 \<longrightarrow> c = DiffractionCorrectionFresnel) \<and>
       (a_use_fft a = 0 \<and> a_order a \<noteq> 0 \<and> a_order a \<noteq> 1 \<longrightarrow>
          c = DiffractionCorrectionLegendre)) \<and>
   (PyArray_DIM0 (a_T_in a) = Some n \<and> fresnel_transform_checks a n = None \<longrightarrow>
      fresnel_transform run status0 a h =
        (case run (dispatch (a_use_fft a) (fill_dlp a n status0 (next_block h)))
                  (fill_dlp a n status0 (next_block h), snd (malloc h)) of
           (dlp, h2) \<Rightarrow> (fresnel_transform_return dlp, h2)))"
  by (auto simp add: dispatch_def fill_dlp_def Let_def fresnel_transform_def malloc_def)

theorem fresnel_transform_dispatch_witness:
  "a_perturb sample_args = (Finite 0, Finite 0, Finite 0, Finite 0, Finite 0) \<and>
   dispatch (a_use_fft sample_args) (fill_dlp sample_args 4 7 0) = DiffractionCorrectionNewton \<and>
   dispatch 1 (fill_dlp (sample_args\<lparr>a_use_fft := 1\<rparr>) 4 7 0) = DiffractionCorrectionSimpleFFT \<and>
   dispatch 0 (fill_dlp (sample_args\<lparr>a_perturb := (Finite 0, Finite 0, Finite 3, Finite 0, Finite 0)\<rparr>) 4 7 0)
     = DiffractionCorrectionPerturbedNewton \<and>
   dispatch 0 (fill_dlp (sample_args\<lparr>a_ecc := Finite (1 / 10)\<rparr>) 4 7 0) = DiffractionCorrectionEllipse \<and>
   dispatch 0 (fill_dlp (sample_args\<lparr>a_order := 1\<rparr>) 4 7 0) = DiffractionCorrectionFresnel \<and>
   dispatch 0 (fill_dlp (sample_args\<lparr>a_order := 4\<rparr>) 4 7 0) = DiffractionCorrectionLegendre \<and>
   PyArray_DIM0 (a_T_in sample_args) = Some 4 \<and> fresnel_transform_checks sample_args 4 = None \<and>
   fresnel_transform (report_status 0) 7 sample_args empty_heap =
     (Inr \<lparr>typenum = NPY_CDOUBLE, dims = [3], data = 0\<rparr>, \<lparr>live = {0}, next_block = 1\<rparr>)"
proof -
  have p: "a_perturb sample_args = (Finite 0, Finite 0, Finite 0, Finite 0, Finite 0)"
    by (simp add: sample_args_def)
  have q: "a_perturb (sample_args\<lparr>a_perturb := (Finite 0, Finite 0, Finite 3, Finite 0, Finite 0)\<rparr>)
      = (Finite 0, Finite 0, Finite 3, Finite 0, Finite 0)"
    by simp
  have v: "a_use_fft sample_args = 0 \<and> a_order sample_args = 0 \<and>
           a_ecc sample_args = Finite 0 \<and> a_peri sample_args = Finite 0"
    by (simp add: sample_args_def)
  note t = fresnel_transform_dispatch[where n = 4 and ?status0.0 = 7 and p = 0]
  have 1: "dispatch (a_use_fft sample_args) (fill_dlp sample_args 4 7 0) = DiffractionCorrectionNewton"
    using t[OF p] v by (simp add: Let_def)
  have 2: "dispatch 1 (fill_dlp (sample_args\<lparr>a_use_fft := 1\<rparr>) 4 7 0) = DiffractionCorrectionSimpleFFT"
    using t[of "sample_args\<lparr>a_use_fft := 1\<rparr>"] p by (simp add: Let_def)
  have 3: "dispatch 0 (fill_dlp (sample_args\<lparr>a_perturb := (Finite 0, Finite 0, Finite 3, Finite 0, Finite 0)\<rparr>) 4 7 0)
     = DiffractionCorrectionPerturbedNewton"
    using t[OF q] v by (simp add: Let_def)
  have 4: "dispatch 0 (fill_dlp (sample_args\<lparr>a_ecc := Finite (1 / 10)\<rparr>) 4 7 0) = DiffractionCorrectionEllipse"
    using t[of "sample_args\<lparr>a_ecc := Finite (1 / 10)\<rparr>"] p v by (simp add: Let_def)
  have 5: "dispatch 0 (fill_dlp (sample_args\<lparr>a_order := 1\<rparr>) 4 7 0) = DiffractionCorrectionFresnel"
    using t[of "sample_args\<lparr>a_order := 1\<rparr>"] p v by (simp add: Let_def)
  have 6: "dispatch 0 (fill_dlp (sample_args\<lparr>a_order := 4\<rparr>) 4 7 0) = DiffractionCorrectionLegendre"
    using t[of "sample_args\<lparr>a_order := 4\<rparr>"] p v by (simp add: Let_def)
  have 7: "fresnel_transform (report_status 0) 7 sample_args empty_heap =
     (Inr \<lparr>typenum = NPY_CDOUBLE, dims = [3], data = 0\<rparr>, \<lparr>live = {0}, next_block = 1\<rparr>)"
    using t[OF p, of "report_status 0" empty_heap] sample_checks
    by (simp add: report_status_def empty_heap_def malloc_def fresnel_transform_return_def
        fill_dlp_def sample_args_def)
  from p 1 2 3 4 5 6 7 sample_checks show ?thesis by simp
qed

text \<open>
  Claim C2. The claim asks that a call ending with a status other than zero return only
  the error and free the output buffer first. The first half holds: the wrapper
  returns \<open>NULL\<close> with an exception and no array. The second does not: the heap on
  return is the heap the correction routine left, so the block allocated for \<open>T_out\<close>,
  live after \<open>malloc\<close>, is still live on return unless the routine itself freed it.
\<close>

theorem fresnel_transform_error_keeps_buffer:
  "PyArray_DIM0 (a_T_in a) = Some n \<Longrightarrow> fresnel_transform_checks a n = None \<Longrightarrow>
   run (dispatch (a_use_fft a) (fill_dlp a n status0 (next_block h)))
       (fill_dlp a n status0 (next_block h), snd (malloc h)) = (dlp, h2) \<Longrightarrow>
   status dlp \<noteq> 0 \<Longrightarrow>
   (\<exists>e. fresnel_transform run status0 a h = (Inl e, h2)) \<and>
   next_block h \<in> live (snd (malloc h)) \<and>
   (next_block h \<in> live h2 \<longrightarrow> next_block h \<in> live (snd (fresnel_transform run status0 a h)))"
  by (simp add: fresnel_transform_def malloc_def fresnel_transform_return_def)

theorem fresnel_transform_error_keeps_buffer_witness:
  "PyArray_DIM0 (a_T_in sample_args) = Some 4 \<and> fresnel_transform_checks sample_args 4 = None \<and>
   report_status 2 (dispatch (a_use_fft sample_args) (fill_dlp sample_args 4 7 (next_block empty_heap)))
       (fill_dlp sample_args 4 7 (next_block empty_heap), snd (malloc empty_heap))
     = ((fill_dlp sample_args 4 7 0)\<lparr>status := 2\<rparr>, \<lparr>live = {0}, next_block = 1\<rparr>) \<and>
   status ((fill_dlp sample_args 4 7 0)\<lparr>status := 2\<rparr>) \<noteq> 0 \<and>
   (\<exists>e. fresnel_transform (report_status 2) 7 sample_args empty_heap
          = (Inl e, \<lparr>live = {0}, next_block = 1\<rparr>)) \<and>
   0 \<in> live (snd (fresnel_transform (report_status 2) 7 sample_args empty_heap))"
proof -
  have r: "report_status 2 (dispatch (a_use_fft sample_args) (fill_dlp sample_args 4 7 (next_block empty_heap)))
       (fill_dlp sample_args 4 7 (next_block empty_heap), snd (malloc empty_heap))
     = ((fill_dlp sample_args 4 7 0)\<lparr>status := 2\<rparr>, \<lparr>live = {0}, next_block = 1\<rparr>)"
    by (simp add: report_status_def empty_heap_def malloc_def)
  have s: "status ((fill_dlp sample_args 4 7 0)\<lparr>status := 2\<rparr>) \<noteq> 0" by simp
  have c1: "PyArray_DIM0 (a_T_in sample_args) = Some 4" using sample_checks by simp
  have c2: "fresnel_transform_checks sample_args 4 = None" using sample_checks by simp
  show ?thesis
    using fresnel_transform_error_keeps_buffer[where run = "report_status 2" and h = empty_heap
        and ?status0.0 = 7 and a = sample_args and n = 4, OF c1 c2 r s] r s c1 c2
    by (simp add: empty_heap_def)
qed

end
